theory Spec2Isabelle
  imports Main "HOL-Library.AList" "HOL-Library.Char_ord" "HOL-Library.List_Lexorder"
begin

section \<open>Python strings\<close>

text \<open>
  A Python \<open>str\<close> is modelled as a \<open>string\<close>, each \<open>char\<close> read as the code point
  of the same number (0 to 255). Whitespace, lower-casing and digits follow what Python
  does on these code points.
\<close>

definition py_isspace :: "char \<Rightarrow> bool" where
  "py_isspace c =
     (let n = (of_char c :: nat)
      in (9 \<le> n \<and> n \<le> 13) \<or> (28 \<le> n \<and> n \<le> 32) \<or> n = 133 \<or> n = 160)"

text \<open>\<open>str.lstrip(chars)\<close>, \<open>str.rstrip(chars)\<close> with the set of characters as a predicate.\<close>

definition lstrip_by :: "(char \<Rightarrow> bool) \<Rightarrow> string \<Rightarrow> string" where
  "lstrip_by P s = dropWhile P s"

definition rstrip_by :: "(char \<Rightarrow> bool) \<Rightarrow> string \<Rightarrow> string" where
  "rstrip_by P s = rev (dropWhile P (rev s))"

text \<open>\<open>str.strip()\<close>: whitespace removed at both ends.\<close>

definition strip :: "string \<Rightarrow> string" where
  "strip s = rstrip_by py_isspace (lstrip_by py_isspace s)"

text \<open>\<open>str.lower()\<close>, one character at a time.\<close>

definition lower_char :: "char \<Rightarrow> char" where
  "lower_char c =
     (let n = (of_char c :: nat)
      in if (65 \<le> n \<and> n \<le> 90) \<or> (192 \<le> n \<and> n \<le> 222 \<and> n \<noteq> 215)
         then char_of (n + 32) else c)"

definition lower :: "string \<Rightarrow> string" where
  "lower s = map lower_char s"

text \<open>\<open>str.rfind(c)\<close> for a single character: the last index of \<open>c\<close>, or \<open>-1\<close>.\<close>

definition rfind :: "string \<Rightarrow> char \<Rightarrow> int" where
  "rfind p c =
     (if c \<in> set p
      then int (length p) - 1 - int (length (takeWhile (\<lambda>x. x \<noteq> c) (rev p)))
      else - 1)"

section \<open>os.path (POSIX)\<close>

text \<open>
  \<open>os.path.splitext\<close>: the extension starts at the last dot, provided that dot comes
  after the last slash and some character between the slash and the dot is not a dot
  (leading dots of the base name do not start an extension).
\<close>

definition splitext :: "string \<Rightarrow> string \<times> string" where
  "splitext p =
     (let sepIndex = rfind p (CHR ''/'');
          dotIndex = rfind p (CHR ''.'')
      in if dotIndex > sepIndex \<and>
            list_ex (\<lambda>c. c \<noteq> CHR ''.'')
              (take (nat (dotIndex - (sepIndex + 1))) (drop (nat (sepIndex + 1)) p))
         then (take (nat dotIndex) p, drop (nat dotIndex) p)
         else (p, []))"

text \<open>\<open>os.path.join(a, b)\<close> with two arguments.\<close>

definition join :: "string \<Rightarrow> string \<Rightarrow> string" where
  "join a b =
     (if b \<noteq> [] \<and> hd b = CHR ''/'' then b
      else if a = [] \<or> last a = CHR ''/'' then a @ b
      else a @ ''/'' @ b)"

section \<open>The upload allow-list\<close>

definition ALLOWED_EXTENSIONS :: "string set" where
  "ALLOWED_EXTENSIONS = {''.png'', ''.jpg'', ''.jpeg''}"

definition allowed_file :: "string \<Rightarrow> bool" where
  "allowed_file filename =
     (if filename = [] then False
      else let ext = lower (snd (splitext filename))
           in ext \<in> ALLOWED_EXTENSIONS)"

section \<open>Python's \<open>int(text, base)\<close>\<close>

text \<open>
  The exceptions \<open>parse_color\<close> can raise: the \<open>ValueError\<close> it raises itself for a
  hex string of the wrong length, the two \<open>ValueError\<close>s of \<open>int\<close> (a text that is not
  an integer literal of the base; a decimal literal with more digits than the
  interpreter converts), and the \<open>TypeError\<close> of \<open>int(None)\<close> for a missing form field.
\<close>

datatype py_error =
    HexLengthError
  | InvalidLiteral nat string
  | DigitLimitExceeded nat
  | IntOfNone

text \<open>
  The whitespace that \<open>int\<close> skips around a literal. It is smaller than the set of
  \<open>str.strip\<close>: the separators \<open>0x1C\<close> to \<open>0x1F\<close> are not skipped.
\<close>

definition int_isspace :: "char \<Rightarrow> bool" where
  "int_isspace c =
     (let n = (of_char c :: nat)
      in (9 \<le> n \<and> n \<le> 13) \<or> n = 32 \<or> n = 133 \<or> n = 160)"

text \<open>The value of a digit character: \<open>0-9\<close>, then \<open>a-z\<close> and \<open>A-Z\<close> for 10 to 35.\<close>

definition digit_value :: "char \<Rightarrow> nat option" where
  "digit_value c =
     (let n = (of_char c :: nat)
      in if 48 \<le> n \<and> n \<le> 57 then Some (n - 48)
         else if 97 \<le> n \<and> n \<le> 122 then Some (n - 87)
         else if 65 \<le> n \<and> n \<le> 90 then Some (n - 55)
         else None)"

text \<open>The value of a character that is a digit of the base.\<close>

definition base_digit :: "nat \<Rightarrow> char \<Rightarrow> nat option" where
  "base_digit base c =
     (case digit_value c of
        None \<Rightarrow> None
      | Some d \<Rightarrow> if d < base then Some d else None)"

text \<open>
  The scan of the digits of a literal, most significant first: it runs over digits of
  the base and underscores and stops at the first other character. Two underscores in a
  row, or an underscore at the end of the run, are an error (\<open>None\<close>). The result is
  the value, the number of digits and the unread rest. \<open>prev_us\<close> tells that the
  previous character was an underscore.
\<close>

fun scan_digits ::
  "nat \<Rightarrow> string \<Rightarrow> bool \<Rightarrow> nat \<Rightarrow> nat \<Rightarrow> (nat \<times> nat \<times> string) option" where
  "scan_digits base [] prev_us acc digits =
     (if prev_us then None else Some (acc, digits, []))"
| "scan_digits base (c # cs) prev_us acc digits =
     (if c = CHR ''_'' then
        (if prev_us then None else scan_digits base cs True acc digits)
      else case base_digit base c of
             Some d \<Rightarrow> scan_digits base cs False (acc * base + d) (Suc digits)
           | None \<Rightarrow> if prev_us then None else Some (acc, digits, c # cs))"

text \<open>
  After the sign, base 16 accepts the prefix \<open>0x\<close> or \<open>0X\<close> (base 8 \<open>0o\<close>, base 2
  \<open>0b\<close>), and one underscore after the prefix.
\<close>

definition base_prefix :: "nat \<Rightarrow> string \<Rightarrow> bool" where
  "base_prefix base s =
     (case s of
        c0 # c1 # _ \<Rightarrow>
          c0 = CHR ''0'' \<and>
          ((base = 16 \<and> (c1 = CHR ''x'' \<or> c1 = CHR ''X'')) \<or>
           (base = 8 \<and> (c1 = CHR ''o'' \<or> c1 = CHR ''O'')) \<or>
           (base = 2 \<and> (c1 = CHR ''b'' \<or> c1 = CHR ''B'')))
      | _ \<Rightarrow> False)"

definition skip_prefix :: "nat \<Rightarrow> string \<Rightarrow> string" where
  "skip_prefix base s =
     (if base_prefix base s
      then (let t = drop 2 s in if t \<noteq> [] \<and> hd t = CHR ''_'' then tl t else t)
      else s)"

text \<open>
  The bases that are powers of two have no limit on the number of digits; for the other
  bases a literal with more digits than \<open>sys.get_int_max_str_digits()\<close>, 4300 unless the
  interpreter is configured otherwise, is refused.
\<close>

definition binary_base :: "nat \<Rightarrow> bool" where
  "binary_base base = (base = 2 \<or> base = 4 \<or> base = 8 \<or> base = 16 \<or> base = 32)"

definition int_max_str_digits :: nat where
  "int_max_str_digits = 4300"

text \<open>
  \<open>int(text, base)\<close> for a \<open>str\<close>: leading whitespace is skipped, then come an optional
  sign, an optional base prefix, the digits (at least one, not starting with an
  underscore) and trailing whitespace up to the end of the text.
\<close>

definition py_int :: "nat \<Rightarrow> string \<Rightarrow> py_error + int" where
  "py_int base text =
     (let s = lstrip_by int_isspace text;
          negative = (s \<noteq> [] \<and> hd s = CHR ''-'');
          unsigned = (if s \<noteq> [] \<and> (hd s = CHR ''+'' \<or> hd s = CHR ''-'') then tl s else s);
          body = skip_prefix base unsigned
      in if body \<noteq> [] \<and> hd body = CHR ''_'' then Inl (InvalidLiteral base text)
         else case scan_digits base body False 0 0 of
                None \<Rightarrow> Inl (InvalidLiteral base text)
              | Some (n, digits, rest) \<Rightarrow>
                  if \<not> binary_base base \<and> digits > int_max_str_digits
                  then Inl (DigitLimitExceeded digits)
                  else if digits = 0 \<or> lstrip_by int_isspace rest \<noteq> []
                  then Inl (InvalidLiteral base text)
                  else Inr (if negative then - int n else int n))"

text \<open>\<open>int(form.get(key))\<close>: a missing field is \<open>None\<close>, and \<open>int(None)\<close> raises.\<close>

definition int_of_field :: "string option \<Rightarrow> py_error + int" where
  "int_of_field v = (case v of None \<Rightarrow> Inl IntOfNone | Some text \<Rightarrow> py_int 10 text)"

section \<open>The target color of a request\<close>

type_synonym color = "int \<times> int \<times> int"

type_synonym form = "string \<Rightarrow> string option"

text \<open>
  \<open>parse_color\<close>: the hex field wins when it is not blank; otherwise the three integer
  fields are read. An exception is the \<open>Inl\<close> result; the first one raised is returned.
\<close>

definition parse_color :: "form \<Rightarrow> py_error + color" where
  "parse_color form =
     (let hex_color = strip (case form ''hex_color'' of None \<Rightarrow> [] | Some v \<Rightarrow> v)
      in if hex_color \<noteq> [] then
           (let hex_color = lstrip_by (\<lambda>c. c = CHR ''#'') hex_color
            in if length hex_color \<noteq> 6 then Inl HexLengthError
               else case py_int 16 (take 2 hex_color) of
                      Inl e \<Rightarrow> Inl e
                    | Inr r \<Rightarrow>
                 (case py_int 16 (take 2 (drop 2 hex_color)) of
                      Inl e \<Rightarrow> Inl e
                    | Inr g \<Rightarrow>
                 (case py_int 16 (take 2 (drop 4 hex_color)) of
                      Inl e \<Rightarrow> Inl e
                    | Inr b \<Rightarrow> Inr (r, g, b))))
         else
           (case int_of_field (form ''r'') of
              Inl e \<Rightarrow> Inl e
            | Inr r \<Rightarrow>
           (case int_of_field (form ''g'') of
              Inl e \<Rightarrow> Inl e
            | Inr g \<Rightarrow>
           (case int_of_field (form ''b'') of
              Inl e \<Rightarrow> Inl e
            | Inr b \<Rightarrow> Inr (r, g, b)))))"

section \<open>The detector's result and the parameters mapping\<close>

text \<open>
  Modelled from the spec: the result type of the detector \<open>calculate_parameters\<close>, whose
  module \<open>calculate_box_pos\<close> is not among the sources. The caller unpacks four values
  \<open>bbox, height, width, rotation\<close> and tests the first three for truth. Following the
  Geometry of the data model, \<open>bbox\<close> is \<open>None\<close> or a tuple of integers, \<open>height\<close> and
  \<open>width\<close> are \<open>None\<close> or an integer, and \<open>rotation\<close> is a value the caller never
  inspects (the type \<open>'r\<close>).
\<close>

type_synonym 'r detection = "int list option \<times> int option \<times> int option \<times> 'r"

text \<open>Python truth of these values: \<open>None\<close>, the empty tuple and \<open>0\<close> are false.\<close>

definition truthy_tuple :: "int list option \<Rightarrow> bool" where
  "truthy_tuple v = (case v of None \<Rightarrow> False | Some xs \<Rightarrow> xs \<noteq> [])"

definition truthy_int :: "int option \<Rightarrow> bool" where
  "truthy_int v = (case v of None \<Rightarrow> False | Some n \<Rightarrow> n \<noteq> 0)"

text \<open>The dictionary stored for one box mockup.\<close>

record 'r geometry =
  bbox :: "int list option"
  height :: "int option"
  width :: "int option"
  rotation :: "'r"

text \<open>
  The parameters dictionary, keyed by file name. A Python \<open>dict\<close> keeps insertion
  order and an assignment to a present key replaces its value in place, which is
  \<open>AList.update\<close>; \<open>not parameters\<close> is \<open>parameters = []\<close>.
\<close>

type_synonym 'r parameters = "(string \<times> 'r geometry) list"

text \<open>
  The loop of \<open>build_parameters\<close> over the directory listing. Besides the dictionary,
  the state records every call made to the detector, with its arguments, in order.
\<close>

record 'r build_state =
  parameters :: "'r parameters"
  calls :: "(string \<times> color) list"

fun build_parameters_loop ::
  "(string \<Rightarrow> color \<Rightarrow> 'r detection) \<Rightarrow> string \<Rightarrow> color \<Rightarrow> string list \<Rightarrow>
   'r build_state \<Rightarrow> 'r build_state" where
  "build_parameters_loop calc box_dir target_color [] st = st"
| "build_parameters_loop calc box_dir target_color (filename # rest) st =
     (if \<not> allowed_file filename then build_parameters_loop calc box_dir target_color rest st
      else
        (let image_path = join box_dir filename;
             (b, h, w, r) = calc image_path target_color;
             st1 = st\<lparr>calls := calls st @ [(image_path, target_color)]\<rparr>
         in if truthy_tuple b \<and> truthy_int h \<and> truthy_int w
            then build_parameters_loop calc box_dir target_color rest
                   (st1\<lparr>parameters :=
                      AList.update filename
                        \<lparr>bbox = b, height = h, width = w, rotation = r\<rparr> (parameters st1)\<rparr>)
            else build_parameters_loop calc box_dir target_color rest st1))"

section \<open>The environment of the web application\<close>

text \<open>
  What the application calls and does not define: the file system (\<open>os.listdir\<close>,
  \<open>os.makedirs\<close>, \<open>FileStorage.save\<close>) over a state \<open>'fs\<close>, \<open>secure_filename\<close>, the
  detector \<open>calculate_parameters\<close> (it reads the image at the path it is given), the
  compositor \<open>create_mockups\<close> (it writes into the output directory) and the directory
  \<open>RUNS_DIR\<close>. These calls are taken to return; none of their exceptions is modelled.
\<close>

record ('fs, 'c, 'r) env =
  listdir :: "'fs \<Rightarrow> string \<Rightarrow> string list"
  makedirs :: "string \<Rightarrow> 'fs \<Rightarrow> 'fs"
  save :: "'c \<Rightarrow> string \<Rightarrow> 'fs \<Rightarrow> 'fs"
  secure_filename :: "string \<Rightarrow> string"
  calculate_parameters :: "'fs \<Rightarrow> string \<Rightarrow> color \<Rightarrow> 'r detection"
  create_mockups :: "string \<Rightarrow> string \<Rightarrow> 'r parameters \<Rightarrow> string \<Rightarrow> 'fs \<Rightarrow> 'fs"
  RUNS_DIR :: string

definition build_parameters_traced ::
  "('fs, 'c, 'r) env \<Rightarrow> 'fs \<Rightarrow> string \<Rightarrow> color \<Rightarrow> 'r build_state" where
  "build_parameters_traced e fs box_dir target_color =
     build_parameters_loop (calculate_parameters e fs) box_dir target_color
       (listdir e fs box_dir) \<lparr>parameters = [], calls = []\<rparr>"

definition build_parameters ::
  "('fs, 'c, 'r) env \<Rightarrow> 'fs \<Rightarrow> string \<Rightarrow> color \<Rightarrow> 'r parameters" where
  "build_parameters e fs box_dir target_color =
     parameters (build_parameters_traced e fs box_dir target_color)"

section \<open>Uploaded files\<close>

text \<open>
  An uploaded file (\<open>FileStorage\<close>): its \<open>filename\<close>, which may be \<open>None\<close>, and its
  content. The file object is true exactly when its file name is.
\<close>

record 'c file_storage =
  filename :: "string option"
  content :: "'c"

text \<open>The loop of \<open>save_files\<close>, on the pair of \<open>saved_any\<close> and the file system.\<close>

fun save_files_loop ::
  "('fs, 'c, 'r) env \<Rightarrow> string \<Rightarrow> 'c file_storage list \<Rightarrow> bool \<times> 'fs \<Rightarrow> bool \<times> 'fs" where
  "save_files_loop e target_dir [] st = st"
| "save_files_loop e target_dir (f # rest) (saved_any, fs) =
     (case filename f of
        None \<Rightarrow> save_files_loop e target_dir rest (saved_any, fs)
      | Some raw \<Rightarrow>
          if raw = [] then save_files_loop e target_dir rest (saved_any, fs)
          else
            (let name = secure_filename e raw
             in if \<not> allowed_file name
                then save_files_loop e target_dir rest (saved_any, fs)
                else
                  (let path = join target_dir name
                   in save_files_loop e target_dir rest (True, save e (content f) path fs))))"

definition save_files ::
  "('fs, 'c, 'r) env \<Rightarrow> 'c file_storage list \<Rightarrow> string \<Rightarrow> 'fs \<Rightarrow> bool \<times> 'fs" where
  "save_files e files target_dir fs = save_files_loop e target_dir files (False, fs)"

section \<open>The request handler\<close>

datatype http_method = GET | POST

record 'c request =
  req_method :: http_method
  req_form :: form
  req_files :: "string \<Rightarrow> 'c file_storage list"

text \<open>
  The error shown on the page: the text of the exception of \<open>parse_color\<close>, or one of
  the handler's own messages.
\<close>

datatype page_error = ColorError py_error | Message string

text \<open>
  A response: the status code and the three arguments given to the template.
\<close>

record response =
  resp_status :: nat
  resp_error :: "page_error option"
  resp_outputs :: "string list option"
  resp_job_id :: "string option"

definition render :: "page_error option \<Rightarrow> string list option \<Rightarrow> string option \<Rightarrow> nat \<Rightarrow> response" where
  "render err outs job st =
     \<lparr>resp_status = st, resp_error = err, resp_outputs = outs, resp_job_id = job\<rparr>"

definition msg_upload :: string where
  "msg_upload = ''Please upload at least one file for designs, mockups, and box mockups.''"

definition msg_no_valid :: string where
  "msg_no_valid = ''No valid image files found. Use PNG or JPG files.''"

definition msg_no_boxes :: string where
  "msg_no_boxes = ''Could not detect any target boxes in the box mockups.''"

definition msg_no_outputs :: string where
  "msg_no_outputs =
     ''No output images were generated. Check that filenames match between mockups and box mockups.''"

text \<open>The four directories of a job.\<close>

definition job_dir :: "('fs, 'c, 'r) env \<Rightarrow> string \<Rightarrow> string" where
  "job_dir e job_id = join (RUNS_DIR e) job_id"

definition box_dir_of :: "('fs, 'c, 'r) env \<Rightarrow> string \<Rightarrow> string" where
  "box_dir_of e job_id = join (job_dir e job_id) ''box_mockups''"

definition mockup_dir_of :: "('fs, 'c, 'r) env \<Rightarrow> string \<Rightarrow> string" where
  "mockup_dir_of e job_id = join (job_dir e job_id) ''mockups''"

definition design_dir_of :: "('fs, 'c, 'r) env \<Rightarrow> string \<Rightarrow> string" where
  "design_dir_of e job_id = join (job_dir e job_id) ''designs''"

definition output_dir_of :: "('fs, 'c, 'r) env \<Rightarrow> string \<Rightarrow> string" where
  "output_dir_of e job_id = join (job_dir e job_id) ''output''"

text \<open>
  The handler up to the detection of the boxes (the part before \<open>create_mockups\<close>): it
  ends with an early error response, or goes on with the parameters. \<open>job_id\<close> is the
  fresh \<open>uuid4\<close> of the request.
\<close>

definition prepare_job ::
  "('fs, 'c, 'r) env \<Rightarrow> string \<Rightarrow> 'c request \<Rightarrow> 'fs \<Rightarrow> (response + 'r parameters) \<times> 'fs" where
  "prepare_job e job_id req fs =
     (case parse_color (req_form req) of
        Inl exc \<Rightarrow> (Inl (render (Some (ColorError exc)) None None 400), fs)
      | Inr target_color \<Rightarrow>
          (let box_files = req_files req ''box_mockups'';
               mockup_files = req_files req ''mockups'';
               design_files = req_files req ''designs''
           in if box_files = [] \<or> mockup_files = [] \<or> design_files = []
              then (Inl (render (Some (Message msg_upload)) None None 400), fs)
              else
                (let fs1 = makedirs e (box_dir_of e job_id) fs;
                     fs2 = makedirs e (mockup_dir_of e job_id) fs1;
                     fs3 = makedirs e (design_dir_of e job_id) fs2;
                     fs4 = makedirs e (output_dir_of e job_id) fs3;
                     (saved_designs, fs5) = save_files e design_files (design_dir_of e job_id) fs4;
                     (saved_mockups, fs6) = save_files e mockup_files (mockup_dir_of e job_id) fs5;
                     (saved_boxes, fs7) = save_files e box_files (box_dir_of e job_id) fs6
                 in if \<not> (saved_designs \<and> saved_mockups \<and> saved_boxes)
                    then (Inl (render (Some (Message msg_no_valid)) None None 400), fs7)
                    else
                      (let params = build_parameters e fs7 (box_dir_of e job_id) target_color
                       in if params = []
                          then (Inl (render (Some (Message msg_no_boxes)) None None 400), fs7)
                          else (Inr params, fs7)))))"

text \<open>The whole handler of the route \<open>/\<close>.\<close>

definition index ::
  "('fs, 'c, 'r) env \<Rightarrow> string \<Rightarrow> 'c request \<Rightarrow> 'fs \<Rightarrow> response \<times> 'fs" where
  "index e job_id req fs =
     (if req_method req = GET then (render None None None 200, fs)
      else
        (case prepare_job e job_id req fs of
           (Inl early, fs1) \<Rightarrow> (early, fs1)
         | (Inr params, fs1) \<Rightarrow>
             (let fs2 = create_mockups e (design_dir_of e job_id) (mockup_dir_of e job_id)
                          params (output_dir_of e job_id) fs1;
                  outputs = sort_key lower
                              (filter allowed_file (listdir e fs2 (output_dir_of e job_id)))
              in if outputs = []
                 then (render (Some (Message msg_no_outputs)) None None 400, fs2)
                 else (render None (Some outputs) (Some job_id) 200, fs2))))"

section \<open>Notions used to state the properties\<close>





text \<open>
  The hex field as \<open>parse_color\<close> reads it: surrounding whitespace removed, then every
  leading \<open>#\<close>.
\<close>

definition unhash :: "string \<Rightarrow> string" where
  "unhash v = lstrip_by (\<lambda>c. c = CHR ''#'') (strip v)"




text \<open>A detection is kept when its first three values are true; the entry stored for it.\<close>

definition detected :: "'r detection \<Rightarrow> bool" where
  "detected d = (case d of (b, h, w, r) \<Rightarrow> truthy_tuple b \<and> truthy_int h \<and> truthy_int w)"

definition entry_of :: "'r detection \<Rightarrow> 'r geometry" where
  "entry_of d = (case d of (b, h, w, r) \<Rightarrow> \<lparr>bbox = b, height = h, width = w, rotation = r\<rparr>)"

text \<open>
  An upload is accepted when it has a file name whose sanitized form passes
  \<open>allowed_file\<close>; storing an upload saves its content under the sanitized name.
\<close>

definition accepted_upload :: "('fs, 'c, 'r) env \<Rightarrow> 'c file_storage \<Rightarrow> bool" where
  "accepted_upload e f =
     (case filename f of None \<Rightarrow> False | Some raw \<Rightarrow> allowed_file (secure_filename e raw))"

definition store_upload :: "('fs, 'c, 'r) env \<Rightarrow> string \<Rightarrow> 'fs \<Rightarrow> 'c file_storage \<Rightarrow> 'fs" where
  "store_upload e target_dir fs f =
     (case filename f of
        None \<Rightarrow> fs
      | Some raw \<Rightarrow> save e (content f) (join target_dir (secure_filename e raw)) fs)"

section \<open>A sample environment\<close>

text \<open>
  A small concrete environment, on which the properties are evaluated. The file system
  is the list of the directories made and the files, each a path with its content; the
  content of an image is a number, and the sample detector reports a box of that size
  (no box for a path that is not a file).
\<close>

type_synonym sample_fs = "string list \<times> (string \<times> int) list"

definition sample_listdir :: "sample_fs \<Rightarrow> string \<Rightarrow> string list" where
  "sample_listdir fs d =
     [drop (length d + 1) p. (p, c) \<leftarrow> snd fs, take (length d + 1) p = d @ ''/'']"

definition sample_makedirs :: "string \<Rightarrow> sample_fs \<Rightarrow> sample_fs" where
  "sample_makedirs d fs = (if d \<in> set (fst fs) then fs else (fst fs @ [d], snd fs))"

definition sample_save :: "int \<Rightarrow> string \<Rightarrow> sample_fs \<Rightarrow> sample_fs" where
  "sample_save c path fs = (fst fs, AList.update path c (snd fs))"

definition sample_secure :: "string \<Rightarrow> string" where
  "sample_secure name = map (\<lambda>c. if c = CHR ''/'' \<or> c = CHR '' '' then CHR ''_'' else c) name"

definition sample_detector :: "sample_fs \<Rightarrow> string \<Rightarrow> color \<Rightarrow> int detection" where
  "sample_detector fs path tc =
     (case map_of (snd fs) path of
        None \<Rightarrow> (None, None, None, 0)
      | Some n \<Rightarrow> (Some [0, 0, n, n], Some n, Some n, 0))"

definition sample_create_mockups ::
  "string \<Rightarrow> string \<Rightarrow> int parameters \<Rightarrow> string \<Rightarrow> sample_fs \<Rightarrow> sample_fs" where
  "sample_create_mockups design_dir mockup_dir params output_dir fs =
     fold (\<lambda>name s. case map_of params name of
                       None \<Rightarrow> s
                     | Some g \<Rightarrow> sample_save 1 (join output_dir name) s)
          (sample_listdir fs mockup_dir) fs"

definition sample_env :: "(sample_fs, int, int) env" where
  "sample_env =
     \<lparr>listdir = sample_listdir, makedirs = sample_makedirs, save = sample_save,
      secure_filename = sample_secure, calculate_parameters = sample_detector,
      create_mockups = sample_create_mockups, RUNS_DIR = ''runs''\<rparr>"

definition sample_boxes :: sample_fs where
  "sample_boxes =
     ([''box''], [(''box/a.png'', 40), (''box/notes.txt'', 7), (''box/b.JPG'', 0),
                  (''box/c.jpeg'', - 5)])"

definition sample_uploads :: "int file_storage list" where
  "sample_uploads =
     [\<lparr>filename = Some ''A b.PNG'', content = 1\<rparr>, \<lparr>filename = Some ''x.txt'', content = 2\<rparr>,
      \<lparr>filename = None, content = 3\<rparr>, \<lparr>filename = Some [], content = 4\<rparr>,
      \<lparr>filename = Some ''c.jpeg'', content = 5\<rparr>]"

definition sample_request :: "int request" where
  "sample_request =
     \<lparr>req_method = POST,
      req_form = [''hex_color'' \<mapsto> ''#ff0000''],
      req_files =
        (\<lambda>_. [])
          (''designs'' := [\<lparr>filename = Some ''d.png'', content = 9\<rparr>],
           ''mockups'' := [\<lparr>filename = Some ''b.PNG'', content = 1\<rparr>,
                           \<lparr>filename = Some ''A.png'', content = 2\<rparr>,
                           \<lparr>filename = Some ''c.jpg'', content = 3\<rparr>],
           ''box_mockups'' := [\<lparr>filename = Some ''b.PNG'', content = 10\<rparr>,
                               \<lparr>filename = Some ''A.png'', content = 20\<rparr>,
                               \<lparr>filename = Some ''c.jpg'', content = 0\<rparr>])\<rparr>"

definition sample_start :: sample_fs where
  "sample_start = ([''runs''], [])"

definition sample_bad_request :: "int request" where
  "sample_bad_request = sample_request\<lparr>req_form := [''hex_color'' \<mapsto> ''12345'']\<rparr>"

definition sample_separator_request :: "int request" where
  "sample_separator_request =
     sample_request
       \<lparr>req_form := [''hex_color'' \<mapsto> [], ''r'' \<mapsto> [CHR ''5'', CHR 0x1C], ''g'' \<mapsto> ''0'',
                     ''b'' \<mapsto> ''0'']\<rparr>"

definition sample_unmatched_request :: "int request" where
  "sample_unmatched_request =
     sample_request
       \<lparr>req_files :=
          (\<lambda>_. [])
            (''designs'' := [\<lparr>filename = Some ''d.png'', content = 9\<rparr>],
             ''mockups'' := [\<lparr>filename = Some ''x.png'', content = 1\<rparr>],
             ''box_mockups'' := [\<lparr>filename = Some ''b.PNG'', content = 10\<rparr>])\<rparr>"

definition sample_final :: sample_fs where
  "sample_final =
     ([''runs'', ''runs/job1/box_mockups'', ''runs/job1/mockups'', ''runs/job1/designs'',
       ''runs/job1/output''],
      [(''runs/job1/designs/d.png'', 9), (''runs/job1/mockups/b.PNG'', 1),
       (''runs/job1/mockups/A.png'', 2), (''runs/job1/mockups/c.jpg'', 3),
       (''runs/job1/box_mockups/b.PNG'', 10), (''runs/job1/box_mockups/A.png'', 20),
       (''runs/job1/box_mockups/c.jpg'', 0), (''runs/job1/output/b.PNG'', 1),
       (''runs/job1/output/A.png'', 1)])"

definition sample_unmatched_final :: sample_fs where
  "sample_unmatched_final =
     ([''runs'', ''runs/job1/box_mockups'', ''runs/job1/mockups'', ''runs/job1/designs'',
       ''runs/job1/output''],
      [(''runs/job1/designs/d.png'', 9), (''runs/job1/mockups/x.png'', 1),
       (''runs/job1/box_mockups/b.PNG'', 10)])"

section \<open>Properties of \<open>parse_color\<close>\<close>










lemma parse_color_hex_branch:
  assumes "form ''hex_color'' = Some v" "strip v \<noteq> []"
  shows "parse_color form =
     (if length (unhash v) \<noteq> 6 then Inl HexLengthError
      else case py_int 16 (take 2 (unhash v)) of Inl e \<Rightarrow> Inl e | Inr r \<Rightarrow>
        (case py_int 16 (take 2 (drop 2 (unhash v))) of Inl e \<Rightarrow> Inl e | Inr g \<Rightarrow>
        (case py_int 16 (take 2 (drop 4 (unhash v))) of Inl e \<Rightarrow> Inl e | Inr b \<Rightarrow> Inr (r, g, b))))"
  unfolding parse_color_def unhash_def Let_def assms(1) option.case using assms(2) by simp




text \<open>
  C2. With an empty hex field and the integer field \<open>r = 300\<close>, outside \<open>0..255\<close>,
  \<open>parse_color\<close> raises nothing and returns the triple \<open>(300, 0, 0)\<close>: the integer
  fields are converted and never compared with the range.
\<close>

theorem parse_color_accepts_out_of_range:
  "parse_color [''hex_color'' \<mapsto> [], ''r'' \<mapsto> ''300'', ''g'' \<mapsto> ''0'', ''b'' \<mapsto> ''0'']
     = Inr (300, 0, 0)"
  by code_simp




text \<open>
  C9, as stated, fails: two forms with the same non-empty hex field, a single space, and
  different \<open>r\<close> fields give different colors.
\<close>

theorem parse_color_blank_hex_counterexample:
  "'' '' \<noteq> [] \<and>
   parse_color [''hex_color'' \<mapsto> '' '', ''r'' \<mapsto> ''1'', ''g'' \<mapsto> ''2'', ''b'' \<mapsto> ''3''] \<noteq>
   parse_color [''hex_color'' \<mapsto> '' '', ''r'' \<mapsto> ''9'', ''g'' \<mapsto> ''2'', ''b'' \<mapsto> ''3'']"
  by code_simp

text \<open>
  C9, amended. For any two forms with the same hex field that is not blank (not empty
  once the surrounding whitespace is removed), whatever their other fields,
  \<open>parse_color\<close> gives the same result: the fields \<open>r\<close>, \<open>g\<close>, \<open>b\<close> have no influence.
\<close>

theorem parse_color_hex_only:
  assumes "form1 ''hex_color'' = Some v" and "form2 ''hex_color'' = Some v"
    and "strip v \<noteq> []"
  shows "parse_color form1 = parse_color form2"
  by (simp only: parse_color_hex_branch[of form1 v, OF assms(1,3)]
        parse_color_hex_branch[of form2 v, OF assms(2,3)])

theorem parse_color_hex_only_witness:
  "strip ''#ff8000'' \<noteq> [] \<and>
   parse_color [''hex_color'' \<mapsto> ''#ff8000'', ''r'' \<mapsto> ''1'', ''g'' \<mapsto> ''2'', ''b'' \<mapsto> ''3''] =
   parse_color [''hex_color'' \<mapsto> ''#ff8000'', ''r'' \<mapsto> ''x'']"
proof -
  have 1: "[''hex_color'' \<mapsto> ''#ff8000'', ''r'' \<mapsto> ''1'', ''g'' \<mapsto> ''2'', ''b'' \<mapsto> ''3'']
             ''hex_color'' = Some ''#ff8000''" by simp
  have 2: "[''hex_color'' \<mapsto> ''#ff8000'', ''r'' \<mapsto> ''x''] ''hex_color'' = Some ''#ff8000''"
    by simp
  have 3: "strip ''#ff8000'' \<noteq> []" by code_simp
  show ?thesis
    using parse_color_hex_only[of
        "[''hex_color'' \<mapsto> ''#ff8000'', ''r'' \<mapsto> ''1'', ''g'' \<mapsto> ''2'', ''b'' \<mapsto> ''3'']"
        "''#ff8000''" "[''hex_color'' \<mapsto> ''#ff8000'', ''r'' \<mapsto> ''x'']", OF 1 2 3] 3
    by simp
qed

section \<open>Properties of \<open>build_parameters\<close>\<close>

lemma loop_step:
  "build_parameters_loop calc box_dir tc (f # rest) st =
     (if \<not> allowed_file f then build_parameters_loop calc box_dir tc rest st
      else if detected (calc (join box_dir f) tc)
      then build_parameters_loop calc box_dir tc rest
             \<lparr>parameters = AList.update f (entry_of (calc (join box_dir f) tc)) (parameters st),
              calls = calls st @ [(join box_dir f, tc)]\<rparr>
      else build_parameters_loop calc box_dir tc rest
             \<lparr>parameters = parameters st, calls = calls st @ [(join box_dir f, tc)]\<rparr>)"
  by (cases "calc (join box_dir f) tc"; cases st) (simp add: detected_def entry_of_def Let_def)

lemma loop_calls:
  "calls (build_parameters_loop calc box_dir tc files st) =
     calls st @ map (\<lambda>f. (join box_dir f, tc)) (filter allowed_file files)"
proof (induction files arbitrary: st)
  case Nil
  show ?case by simp
next
  case (Cons f rest)
  show ?case unfolding loop_step by (simp add: Cons.IH)
qed

lemma loop_parameters_cong:
  "parameters st = parameters st' \<Longrightarrow>
   parameters (build_parameters_loop calc box_dir tc files st) =
   parameters (build_parameters_loop calc box_dir tc files st')"
proof (induction files arbitrary: st st')
  case Nil
  then show ?case by simp
next
  case (Cons f rest)
  have a: "parameters (build_parameters_loop calc box_dir tc rest \<lparr>parameters = p, calls = c\<rparr>) =
        parameters (build_parameters_loop calc box_dir tc rest \<lparr>parameters = p, calls = c'\<rparr>)"
    for p c c' by (rule Cons.IH) simp
  have b: "parameters (build_parameters_loop calc box_dir tc rest st) =
        parameters (build_parameters_loop calc box_dir tc rest st')"
    by (rule Cons.IH) (rule Cons.prems)
  show ?case
    unfolding loop_step using Cons.prems a b by simp
qed

lemma loop_skip_failed:
  assumes "\<not> detected (calc (join box_dir f) tc)"
  shows "parameters (build_parameters_loop calc box_dir tc (xs @ f # ys) st) =
         parameters (build_parameters_loop calc box_dir tc (xs @ ys) st)"
proof (induction xs arbitrary: st)
  case Nil
  have "parameters (build_parameters_loop calc box_dir tc ys \<lparr>parameters = parameters st, calls = c\<rparr>)
      = parameters (build_parameters_loop calc box_dir tc ys st)" for c
    by (rule loop_parameters_cong) simp
  then show ?case
    unfolding append_Nil loop_step using assms by simp
next
  case (Cons x xs)
  show ?case
    unfolding append_Cons loop_step by (simp add: Cons.IH)
qed

lemma set_update_subset: "set (AList.update k v al) \<subseteq> insert (k, v) (set al)"
  by (induction al) auto

lemma loop_stored:
  assumes "\<forall>kv \<in> set (parameters st). P kv"
    and "\<And>f. f \<in> set files \<Longrightarrow> allowed_file f \<Longrightarrow> detected (calc (join box_dir f) tc) \<Longrightarrow>
            P (f, entry_of (calc (join box_dir f) tc))"
  shows "\<forall>kv \<in> set (parameters (build_parameters_loop calc box_dir tc files st)). P kv"
  using assms
proof (induction files arbitrary: st)
  case Nil
  then show ?case by simp
next
  case (Cons f rest)
  have rest: "\<And>g. g \<in> set rest \<Longrightarrow> allowed_file g \<Longrightarrow> detected (calc (join box_dir g) tc) \<Longrightarrow>
            P (g, entry_of (calc (join box_dir g) tc))"
    using Cons.prems(2) by simp
  have IH: "\<forall>kv \<in> set (parameters (build_parameters_loop calc box_dir tc rest st')). P kv"
    if "\<forall>kv \<in> set (parameters st'). P kv" for st'
    using Cons.IH[OF that rest] by simp
  have upd: "\<forall>kv \<in> set (AList.update f (entry_of (calc (join box_dir f) tc)) (parameters st)). P kv"
    if "allowed_file f" "detected (calc (join box_dir f) tc)"
  proof -
    have "P (f, entry_of (calc (join box_dir f) tc))"
      using Cons.prems(2)[of f] that by simp
    then show ?thesis
      using Cons.prems(1) set_update_subset[of f "entry_of (calc (join box_dir f) tc)" "parameters st"]
      by blast
  qed
  show ?case
  proof (cases "allowed_file f")
    case False
    then show ?thesis unfolding loop_step using IH[OF Cons.prems(1)] by simp
  next
    case True
    show ?thesis
    proof (cases "detected (calc (join box_dir f) tc)")
      case True
      have "\<forall>kv \<in> set (parameters (build_parameters_loop calc box_dir tc rest
               \<lparr>parameters = AList.update f (entry_of (calc (join box_dir f) tc)) (parameters st),
                calls = c\<rparr>)). P kv" for c
        by (rule IH) (simp add: upd[OF \<open>allowed_file f\<close> True])
      then show ?thesis
        unfolding loop_step using \<open>allowed_file f\<close> True by simp
    next
      case False
      have "\<forall>kv \<in> set (parameters (build_parameters_loop calc box_dir tc rest
               \<lparr>parameters = parameters st, calls = c\<rparr>)). P kv" for c
        by (rule IH) (simp add: Cons.prems(1))
      then show ?thesis
        unfolding loop_step using \<open>allowed_file f\<close> False by simp
    qed
  qed
qed


lemma update_keys_set: "fst ` set (AList.update k v al) = insert k (fst ` set al)"
  by (induction al) auto

lemma loop_keys:
  "fst ` set (parameters (build_parameters_loop calc box_dir tc files st)) =
   fst ` set (parameters st) \<union>
   {f \<in> set files. allowed_file f \<and> detected (calc (join box_dir f) tc)}"
proof (induction files arbitrary: st)
  case Nil
  show ?case by simp
next
  case (Cons f rest)
  show ?case
    unfolding loop_step by (simp add: Cons.IH update_keys_set) blast
qed

lemma detected_entry:
  assumes "detected d"
  shows "truthy_tuple (bbox (entry_of d))"
    "\<exists>h w. height (entry_of d) = Some h \<and> width (entry_of d) = Some w \<and> h \<noteq> 0 \<and> w \<noteq> 0"
  using assms
  by (cases d; auto simp: detected_def entry_of_def truthy_int_def split: option.splits)+



lemma loop_map_of:
  "map_of (parameters (build_parameters_loop calc box_dir tc files st)) name =
     (if name \<in> set files \<and> allowed_file name \<and> detected (calc (join box_dir name) tc)
      then Some (entry_of (calc (join box_dir name) tc))
      else map_of (parameters st) name)"
proof (induction files arbitrary: st name)
  case Nil
  show ?case by simp
next
  case (Cons f rest)
  show ?case
    unfolding loop_step by (auto simp: Cons.IH update_conv')
qed

lemma loop_distinct:
  "distinct (map fst (parameters st)) \<Longrightarrow>
   distinct (map fst (parameters (build_parameters_loop calc box_dir tc files st)))"
proof (induction files arbitrary: st)
  case Nil
  then show ?case by simp
next
  case (Cons f rest)
  show ?case
    unfolding loop_step using Cons.prems by (auto intro!: Cons.IH simp: distinct_update)
qed

text \<open>
  C4. When the detector signals a failed detection for a file \<open>f\<close> of the listing (one
  of \<open>bbox\<close>, \<open>height\<close>, \<open>width\<close> is false), \<open>build_parameters\<close> returns a mapping, a
  dictionary with one entry for a key, in which \<open>f\<close> has no entry and every other file of
  the listing is processed: the mapping holds, for every name, the detector's result
  when the name is an allowed file of the rest of the listing whose detection
  succeeded, and nothing otherwise; and the detector is called on every allowed file
  before \<open>f\<close>, on \<open>f\<close> itself when it is allowed, and on every allowed file after \<open>f\<close>. The
  result is also the one for the listing without \<open>f\<close>. No exception is involved:
  \<open>build_parameters\<close> has no error result.
\<close>

theorem build_parameters_skips_failed:
  assumes "listdir e fs box_dir = xs @ f # ys"
    and "\<not> detected (calculate_parameters e fs (join box_dir f) tc)"
  shows "map_of (build_parameters e fs box_dir tc) f = None \<and>
         (\<forall>name. map_of (build_parameters e fs box_dir tc) name =
            (if name \<in> set (xs @ ys) \<and> allowed_file name \<and>
                detected (calculate_parameters e fs (join box_dir name) tc)
             then Some (entry_of (calculate_parameters e fs (join box_dir name) tc))
             else None)) \<and>
         distinct (map fst (build_parameters e fs box_dir tc)) \<and>
         calls (build_parameters_traced e fs box_dir tc) =
           map (\<lambda>g. (join box_dir g, tc)) (filter allowed_file xs) @
           (if allowed_file f then [(join box_dir f, tc)] else []) @
           map (\<lambda>g. (join box_dir g, tc)) (filter allowed_file ys) \<and>
         build_parameters e fs box_dir tc =
           parameters (build_parameters_loop (calculate_parameters e fs) box_dir tc (xs @ ys)
                         \<lparr>parameters = [], calls = []\<rparr>)"
proof (intro conjI allI)
  show "map_of (build_parameters e fs box_dir tc) f = None"
    unfolding build_parameters_def build_parameters_traced_def loop_map_of
    using assms(2) by simp
  show "map_of (build_parameters e fs box_dir tc) name =
            (if name \<in> set (xs @ ys) \<and> allowed_file name \<and>
                detected (calculate_parameters e fs (join box_dir name) tc)
             then Some (entry_of (calculate_parameters e fs (join box_dir name) tc))
             else None)" for name
    unfolding build_parameters_def build_parameters_traced_def loop_map_of assms(1)
    using assms(2) by auto
  show "distinct (map fst (build_parameters e fs box_dir tc))"
    unfolding build_parameters_def build_parameters_traced_def
    by (rule loop_distinct) simp
  show "calls (build_parameters_traced e fs box_dir tc) =
           map (\<lambda>g. (join box_dir g, tc)) (filter allowed_file xs) @
           (if allowed_file f then [(join box_dir f, tc)] else []) @
           map (\<lambda>g. (join box_dir g, tc)) (filter allowed_file ys)"
    unfolding build_parameters_traced_def loop_calls assms(1) by simp
  show "build_parameters e fs box_dir tc =
           parameters (build_parameters_loop (calculate_parameters e fs) box_dir tc (xs @ ys)
                         \<lparr>parameters = [], calls = []\<rparr>)"
    unfolding build_parameters_def build_parameters_traced_def assms(1)
    by (rule loop_skip_failed) (rule assms(2))
qed

theorem build_parameters_skips_failed_witness:
  "listdir sample_env sample_boxes ''box'' = [''a.png'', ''notes.txt''] @ ''b.JPG'' # [''c.jpeg''] \<and>
   allowed_file ''b.JPG'' \<and>
   \<not> detected (calculate_parameters sample_env sample_boxes (join ''box'' ''b.JPG'') (255, 0, 0)) \<and>
   map_of (build_parameters sample_env sample_boxes ''box'' (255, 0, 0)) ''b.JPG'' = None \<and>
   map_of (build_parameters sample_env sample_boxes ''box'' (255, 0, 0)) ''c.jpeg'' =
     Some \<lparr>bbox = Some [0, 0, - 5, - 5], height = Some (- 5), width = Some (- 5), rotation = 0\<rparr> \<and>
   calls (build_parameters_traced sample_env sample_boxes ''box'' (255, 0, 0)) =
     [(''box/a.png'', (255, 0, 0)), (''box/b.JPG'', (255, 0, 0)), (''box/c.jpeg'', (255, 0, 0))]"
proof -
  have 1: "listdir sample_env sample_boxes ''box'' =
             [''a.png'', ''notes.txt''] @ ''b.JPG'' # [''c.jpeg'']"
    by code_simp
  have 2: "\<not> detected (calculate_parameters sample_env sample_boxes (join ''box'' ''b.JPG'')
                          (255, 0, 0))"
    by code_simp
  have 3: "allowed_file ''b.JPG''"
    by code_simp
  have 4: "(if ''c.jpeg'' \<in> set ([''a.png'', ''notes.txt''] @ [''c.jpeg'']) \<and> allowed_file ''c.jpeg'' \<and>
               detected (calculate_parameters sample_env sample_boxes (join ''box'' ''c.jpeg'')
                           (255, 0, 0))
            then Some (entry_of (calculate_parameters sample_env sample_boxes
                                   (join ''box'' ''c.jpeg'') (255, 0, 0)))
            else None) =
           Some \<lparr>bbox = Some [0, 0, - 5, - 5], height = Some (- 5), width = Some (- 5),
                  rotation = 0\<rparr>"
    by code_simp
  have 5: "map (\<lambda>g. (join ''box'' g, (255, 0, 0) :: color))
             (filter allowed_file [''a.png'', ''notes.txt'']) @
           (if allowed_file ''b.JPG'' then [(join ''box'' ''b.JPG'', (255, 0, 0))] else []) @
           map (\<lambda>g. (join ''box'' g, (255, 0, 0))) (filter allowed_file [''c.jpeg'']) =
           [(''box/a.png'', (255, 0, 0)), (''box/b.JPG'', (255, 0, 0)),
            (''box/c.jpeg'', (255, 0, 0))]"
    by code_simp
  note t = build_parameters_skips_failed[of sample_env sample_boxes "''box''"
        "[''a.png'', ''notes.txt'']" "''b.JPG''" "[''c.jpeg'']" "(255, 0, 0)", OF 1 2]
  from t have a: "map_of (build_parameters sample_env sample_boxes ''box'' (255, 0, 0)) ''b.JPG''
        = None"
    by blast
  from t have "map_of (build_parameters sample_env sample_boxes ''box'' (255, 0, 0)) ''c.jpeg'' =
      (if ''c.jpeg'' \<in> set ([''a.png'', ''notes.txt''] @ [''c.jpeg'']) \<and> allowed_file ''c.jpeg'' \<and>
               detected (calculate_parameters sample_env sample_boxes (join ''box'' ''c.jpeg'')
                           (255, 0, 0))
            then Some (entry_of (calculate_parameters sample_env sample_boxes
                                   (join ''box'' ''c.jpeg'') (255, 0, 0)))
            else None)"
    by blast
  then have b: "map_of (build_parameters sample_env sample_boxes ''box'' (255, 0, 0)) ''c.jpeg'' =
      Some \<lparr>bbox = Some [0, 0, - 5, - 5], height = Some (- 5), width = Some (- 5),
             rotation = 0\<rparr>"
    using 4 by (rule trans)
  from t have "calls (build_parameters_traced sample_env sample_boxes ''box'' (255, 0, 0)) =
           map (\<lambda>g. (join ''box'' g, (255, 0, 0))) (filter allowed_file [''a.png'', ''notes.txt'']) @
           (if allowed_file ''b.JPG'' then [(join ''box'' ''b.JPG'', (255, 0, 0))] else []) @
           map (\<lambda>g. (join ''box'' g, (255, 0, 0))) (filter allowed_file [''c.jpeg''])"
    by blast
  then have c: "calls (build_parameters_traced sample_env sample_boxes ''box'' (255, 0, 0)) =
      [(''box/a.png'', (255, 0, 0)), (''box/b.JPG'', (255, 0, 0)), (''box/c.jpeg'', (255, 0, 0))]"
    using 5 by (rule trans)
  show ?thesis
    using 1 2 3 a b c by blast
qed

text \<open>
  C1, as stated, fails: for a detector result with a negative height and width, all three
  tested values are true, and \<open>build_parameters\<close> stores the entry.
\<close>

theorem build_parameters_negative_size_counterexample:
  "(''c.jpeg'', \<lparr>bbox = Some [0, 0, - 5, - 5], height = Some (- 5), width = Some (- 5),
                 rotation = 0\<rparr>)
     \<in> set (build_parameters sample_env sample_boxes ''box'' (255, 0, 0)) \<and>
   \<not> (0 :: int) < - 5"
  by code_simp

text \<open>
  C1, amended. For every listing of the box-mockup directory and every result of the
  detector, every entry stored in the mapping returned by \<open>build_parameters\<close> belongs to
  a file of the listing with an allowed extension, is the result the detector returned
  for that file, a successful detection, and has a true \<open>bbox\<close> and a height and a
  width that are integers different from zero. A failed detection contributes no entry
  and a zero-sized entry is never stored.
\<close>

theorem build_parameters_entries:
  "\<forall>(name, g) \<in> set (build_parameters e fs box_dir tc).
      name \<in> set (listdir e fs box_dir) \<and> allowed_file name \<and>
      detected (calculate_parameters e fs (join box_dir name) tc) \<and>
      g = entry_of (calculate_parameters e fs (join box_dir name) tc) \<and>
      truthy_tuple (bbox g) \<and>
      (\<exists>h w. height g = Some h \<and> width g = Some w \<and> h \<noteq> 0 \<and> w \<noteq> 0)"
proof -
  have "\<forall>kv \<in> set (parameters (build_parameters_loop (calculate_parameters e fs) box_dir tc
            (listdir e fs box_dir) \<lparr>parameters = [], calls = []\<rparr>)).
         (case kv of (name, g) \<Rightarrow>
            name \<in> set (listdir e fs box_dir) \<and> allowed_file name \<and>
            detected (calculate_parameters e fs (join box_dir name) tc) \<and>
            g = entry_of (calculate_parameters e fs (join box_dir name) tc) \<and>
            truthy_tuple (bbox g) \<and>
            (\<exists>h w. height g = Some h \<and> width g = Some w \<and> h \<noteq> 0 \<and> w \<noteq> 0))"
  proof (rule loop_stored, goal_cases)
    case 1
    show ?case by simp
  next
    case (2 f)
    show ?case
      using 2 detected_entry(1)[OF 2(3)] detected_entry(2)[OF 2(3)] by auto
  qed
  then show ?thesis
    by (simp add: build_parameters_def build_parameters_traced_def)
qed

theorem build_parameters_entries_witness:
  "(''a.png'', \<lparr>bbox = Some [0, 0, 40, 40], height = Some 40, width = Some 40, rotation = 0\<rparr>)
     \<in> set (build_parameters sample_env sample_boxes ''box'' (255, 0, 0)) \<and>
   ''a.png'' \<in> set (listdir sample_env sample_boxes ''box'') \<and> allowed_file ''a.png'' \<and>
   detected (calculate_parameters sample_env sample_boxes (join ''box'' ''a.png'') (255, 0, 0))"
proof -
  have m: "(''a.png'', \<lparr>bbox = Some [0, 0, 40, 40], height = Some 40, width = Some 40,
                         rotation = 0\<rparr>)
             \<in> set (build_parameters sample_env sample_boxes ''box'' (255, 0, 0))"
    by code_simp
  show ?thesis
    using m build_parameters_entries[of sample_env sample_boxes "''box''" "(255, 0, 0)"]
    by blast
qed

section \<open>Properties of \<open>allowed_file\<close> and \<open>save_files\<close>\<close>

lemma save_files_loop_eq:
  assumes "secure_filename e [] = []"
  shows "save_files_loop e d fls (b, fs) =
     (b \<or> filter (accepted_upload e) fls \<noteq> [],
      foldl (store_upload e d) fs (filter (accepted_upload e) fls))"
proof (induction fls arbitrary: b fs)
  case Nil
  show ?case by simp
next
  case (Cons f rest)
  have empty: "\<not> allowed_file (secure_filename e [])"
    by (simp add: assms allowed_file_def)
  show ?case
  proof (cases "filename f")
    case None
    then show ?thesis by (simp add: Cons.IH accepted_upload_def)
  next
    case (Some raw)
    show ?thesis
    proof (cases "raw = []")
      case True
      then show ?thesis using Some empty by (simp add: Cons.IH accepted_upload_def)
    next
      case False
      then show ?thesis
        using Some by (simp add: Cons.IH accepted_upload_def store_upload_def Let_def)
    qed
  qed
qed

text \<open>
  The extension is the one of \<open>os.path.splitext\<close>: a name made of leading dots and
  letters only, such as \<open>.png\<close>, has no extension and is not allowed.
\<close>

lemma allowed_file_examples:
  "allowed_file ''photo.PNG'' \<and> allowed_file ''a.b/c.d.JpEg'' \<and> \<not> allowed_file ''.png'' \<and>
   \<not> allowed_file ''photo.png/'' \<and> \<not> allowed_file ''photo.gif'' \<and> \<not> allowed_file []"
  by code_simp

text \<open>
  C6. For every file name, \<open>allowed_file\<close> is true exactly when the name is not empty
  and its extension (as \<open>os.path.splitext\<close> gives it), in lower case, is one of
  \<open>.png\<close>, \<open>.jpg\<close>, \<open>.jpeg\<close>. \<open>save_files\<close> stores exactly the uploads whose sanitized
  file name passes this test, in their order, and reports whether there was one; the
  other uploads are passed over and nothing is raised. The sanitizer maps the empty name
  to the empty name, as \<open>secure_filename\<close> does.
\<close>

theorem allowed_file_save_files:
  assumes "secure_filename e [] = []"
  shows "(allowed_file name \<longleftrightarrow>
            name \<noteq> [] \<and> lower (snd (splitext name)) \<in> {''.png'', ''.jpg'', ''.jpeg''}) \<and>
         save_files e fls d fs =
           (filter (accepted_upload e) fls \<noteq> [],
            foldl (store_upload e d) fs (filter (accepted_upload e) fls))"
  by (simp add: allowed_file_def ALLOWED_EXTENSIONS_def Let_def save_files_def
        save_files_loop_eq[OF assms])

theorem allowed_file_save_files_witness:
  "secure_filename sample_env [] = [] \<and> allowed_file ''A_b.PNG'' \<and>
   save_files sample_env sample_uploads ''d'' sample_start =
     (True, ([''runs''], [(''d/A_b.PNG'', 1), (''d/c.jpeg'', 5)]))"
proof -
  have h: "secure_filename sample_env [] = []"
    by code_simp
  have n: "''A_b.PNG'' \<noteq> [] \<and> lower (snd (splitext ''A_b.PNG'')) \<in> {''.png'', ''.jpg'', ''.jpeg''}"
    by code_simp
  have r: "(filter (accepted_upload sample_env) sample_uploads \<noteq> [],
            foldl (store_upload sample_env ''d'') sample_start
              (filter (accepted_upload sample_env) sample_uploads)) =
           (True, ([''runs''], [(''d/A_b.PNG'', 1), (''d/c.jpeg'', 5)]))"
    by code_simp
  note t = allowed_file_save_files[OF h, of "''A_b.PNG''" sample_uploads "''d''" sample_start]
  from t n have a: "allowed_file ''A_b.PNG''"
    by blast
  from t have "save_files sample_env sample_uploads ''d'' sample_start =
      (filter (accepted_upload sample_env) sample_uploads \<noteq> [],
       foldl (store_upload sample_env ''d'') sample_start
         (filter (accepted_upload sample_env) sample_uploads))"
    by blast
  then have b: "save_files sample_env sample_uploads ''d'' sample_start =
      (True, ([''runs''], [(''d/A_b.PNG'', 1), (''d/c.jpeg'', 5)]))"
    using r by (rule trans)
  show ?thesis
    using h a b by blast
qed

section \<open>Properties of the request handler\<close>

lemma prepare_job_early:
  assumes "prepare_job e job_id req fs = (Inl early, fs1)"
  shows "resp_outputs early = None" "resp_status early = 400"
    "resp_error early \<noteq> Some (Message msg_no_outputs)" "resp_error early \<noteq> None"
  using assms
  by (auto simp: prepare_job_def Let_def render_def msg_upload_def msg_no_valid_def
        msg_no_boxes_def msg_no_outputs_def split: sum.splits if_splits prod.splits)

lemma sample_run:
  "index sample_env ''job1'' sample_request sample_start =
     (render None (Some [''A.png'', ''b.PNG'']) (Some ''job1'') 200, sample_final)"
  by code_simp

lemma sample_unmatched_run:
  "index sample_env ''job1'' sample_unmatched_request sample_start =
     (render (Some (Message msg_no_outputs)) None None 400, sample_unmatched_final)"
  by code_simp

text \<open>
  C8. When \<open>parse_color\<close> raises on the color of a POST request, the handler answers
  with status 400 and the text of the exception, and the file system it returns is the
  one it was given: no directory is made and no upload is saved.
\<close>

theorem index_color_error:
  assumes "req_method req = POST" and "parse_color (req_form req) = Inl exc"
  shows "index e job_id req fs = (render (Some (ColorError exc)) None None 400, fs)"
  using assms by (simp add: index_def prepare_job_def)

theorem index_color_error_witness:
  "req_method sample_bad_request = POST \<and>
   parse_color (req_form sample_bad_request) = Inl HexLengthError \<and>
   index sample_env ''job1'' sample_bad_request sample_start =
     (render (Some (ColorError HexLengthError)) None None 400, sample_start) \<and>
   req_method sample_separator_request = POST \<and>
   parse_color (req_form sample_separator_request) =
     Inl (InvalidLiteral 10 [CHR ''5'', CHR 0x1C]) \<and>
   index sample_env ''job1'' sample_separator_request sample_start =
     (render (Some (ColorError (InvalidLiteral 10 [CHR ''5'', CHR 0x1C]))) None None 400,
      sample_start)"
proof -
  have 1: "req_method sample_bad_request = POST"
    by code_simp
  have 2: "parse_color (req_form sample_bad_request) = Inl HexLengthError"
    by code_simp
  have 3: "req_method sample_separator_request = POST"
    by code_simp
  have 4: "parse_color (req_form sample_separator_request) =
             Inl (InvalidLiteral 10 [CHR ''5'', CHR 0x1C])"
    by code_simp
  show ?thesis
    using 1 2 3 4
      index_color_error[where e = sample_env and job_id = "''job1''"
        and fs = sample_start, OF 1 2]
      index_color_error[where e = sample_env and job_id = "''job1''"
        and fs = sample_start, OF 3 4]
    by blast
qed

text \<open>
  C10. The outputs listed on the success page are the file names of the job's output
  directory, as it is when the handler returns, that pass \<open>allowed_file\<close>, sorted by
  their lower-case form (a stable sort, as \<open>sorted\<close> with \<open>key=str.lower\<close>); a page
  that lists outputs has status 200.
\<close>

theorem index_outputs_sorted:
  assumes "index e job_id req fs = (resp, fs')" and "resp_outputs resp = Some outs"
  shows "outs = sort_key lower (filter allowed_file (listdir e fs' (output_dir_of e job_id))) \<and>
         set outs = {n \<in> set (listdir e fs' (output_dir_of e job_id)). allowed_file n} \<and>
         sorted (map lower outs) \<and> resp_status resp = 200"
proof -
  have post: "req_method req \<noteq> GET"
    using assms by (auto simp: index_def render_def)
  obtain r fs1 where pj: "prepare_job e job_id req fs = (r, fs1)"
    by (cases "prepare_job e job_id req fs")
  show ?thesis
  proof (cases r)
    case (Inl early)
    then have "resp = early"
      using assms(1) post pj by (simp add: index_def)
    then show ?thesis
      using prepare_job_early(1)[OF pj[unfolded Inl]] assms(2) by simp
  next
    case (Inr params)
    define fs2 where "fs2 = create_mockups e (design_dir_of e job_id) (mockup_dir_of e job_id)
                          params (output_dir_of e job_id) fs1"
    define outputs where "outputs = sort_key lower
                              (filter allowed_file (listdir e fs2 (output_dir_of e job_id)))"
    have ix: "index e job_id req fs =
        (if outputs = [] then (render (Some (Message msg_no_outputs)) None None 400, fs2)
         else (render None (Some outputs) (Some job_id) 200, fs2))"
      using post pj Inr by (simp add: index_def Let_def fs2_def outputs_def)
    from ix assms have "outputs \<noteq> []" "fs' = fs2" "outs = outputs" "resp_status resp = 200"
      by (auto simp: render_def split: if_splits)
    then show ?thesis
      by (auto simp: outputs_def)
  qed
qed

theorem index_outputs_sorted_witness:
  "index sample_env ''job1'' sample_request sample_start =
     (render None (Some [''A.png'', ''b.PNG'']) (Some ''job1'') 200, sample_final) \<and>
   [''A.png'', ''b.PNG''] =
     sort_key lower (filter allowed_file
                       (listdir sample_env sample_final (output_dir_of sample_env ''job1''))) \<and>
   sorted (map lower [''A.png'', ''b.PNG''])"
proof -
  have o: "resp_outputs (render None (Some [''A.png'', ''b.PNG'']) (Some ''job1'') 200) =
             Some [''A.png'', ''b.PNG'']"
    by (simp add: render_def)
  show ?thesis
    using sample_run index_outputs_sorted[OF sample_run o]
    by blast
qed

text \<open>
  C3. For a POST request, the handler reports the error of the missing outputs only
  when it has run \<open>create_mockups\<close> and the output directory then holds no file with an
  allowed image extension. Whenever the handler runs \<open>create_mockups\<close> and the output
  directory then holds at least one such file, it answers with the success page, status
  200 and no error, listing exactly the allowed files of the output directory.
\<close>

theorem index_no_outputs_error:
  assumes "req_method req = POST" and "index e job_id req fs = (resp, fs')"
  shows "(resp_error resp = Some (Message msg_no_outputs) \<longrightarrow>
            (\<exists>params fs1. prepare_job e job_id req fs = (Inr params, fs1) \<and>
               fs' = create_mockups e (design_dir_of e job_id) (mockup_dir_of e job_id)
                       params (output_dir_of e job_id) fs1) \<and>
            (\<forall>n \<in> set (listdir e fs' (output_dir_of e job_id)). \<not> allowed_file n)) \<and>
         (\<forall>params fs1.
            prepare_job e job_id req fs = (Inr params, fs1) \<and>
            (\<exists>n \<in> set (listdir e
                        (create_mockups e (design_dir_of e job_id) (mockup_dir_of e job_id)
                           params (output_dir_of e job_id) fs1)
                        (output_dir_of e job_id)). allowed_file n) \<longrightarrow>
            fs' = create_mockups e (design_dir_of e job_id) (mockup_dir_of e job_id)
                    params (output_dir_of e job_id) fs1 \<and>
            resp_status resp = 200 \<and> resp_error resp = None \<and>
            (\<exists>outs. resp_outputs resp = Some outs \<and>
               set outs = {n \<in> set (listdir e fs' (output_dir_of e job_id)). allowed_file n}))"
proof -
  have post: "req_method req \<noteq> GET"
    using assms(1) by simp
  obtain r fs1 where pj: "prepare_job e job_id req fs = (r, fs1)"
    by (cases "prepare_job e job_id req fs")
  show ?thesis
  proof (cases r)
    case (Inl early)
    then have "resp = early"
      using assms(2) post pj by (simp add: index_def)
    then show ?thesis
      using prepare_job_early(3)[OF pj[unfolded Inl]] pj Inl by simp
  next
    case (Inr params)
    define fs2 where "fs2 = create_mockups e (design_dir_of e job_id) (mockup_dir_of e job_id)
                          params (output_dir_of e job_id) fs1"
    define outputs where "outputs = sort_key lower
                              (filter allowed_file (listdir e fs2 (output_dir_of e job_id)))"
    have ix: "index e job_id req fs =
        (if outputs = [] then (render (Some (Message msg_no_outputs)) None None 400, fs2)
         else (render None (Some outputs) (Some job_id) 200, fs2))"
      using post pj Inr by (simp add: index_def Let_def fs2_def outputs_def)
    have set_out: "set outputs = {n \<in> set (listdir e fs2 (output_dir_of e job_id)). allowed_file n}"
      by (auto simp: outputs_def)
    have "outputs = [] \<longleftrightarrow> set outputs = {}"
      by simp
    then have empty_iff: "outputs = [] \<longleftrightarrow>
        (\<forall>n \<in> set (listdir e fs2 (output_dir_of e job_id)). \<not> allowed_file n)"
      unfolding set_out by blast
    show ?thesis
    proof (cases "outputs = []")
      case True
      then have "resp = render (Some (Message msg_no_outputs)) None None 400" "fs' = fs2"
        using ix assms(2) by simp_all
      then show ?thesis
        using True empty_iff pj Inr by (auto simp: render_def fs2_def)
    next
      case False
      then have "resp = render None (Some outputs) (Some job_id) 200" "fs' = fs2"
        using ix assms(2) by simp_all
      then show ?thesis
        using False set_out pj Inr by (auto simp: render_def fs2_def)
    qed
  qed
qed

theorem index_no_outputs_error_witness:
  "req_method sample_request = POST \<and>
   index sample_env ''job1'' sample_request sample_start =
     (render None (Some [''A.png'', ''b.PNG'']) (Some ''job1'') 200, sample_final) \<and>
   resp_status (render None (Some [''A.png'', ''b.PNG'']) (Some ''job1'') 200) = 200 \<and>
   resp_error (render None (Some [''A.png'', ''b.PNG'']) (Some ''job1'') 200) = None \<and>
   req_method sample_unmatched_request = POST \<and>
   index sample_env ''job1'' sample_unmatched_request sample_start =
     (render (Some (Message msg_no_outputs)) None None 400, sample_unmatched_final) \<and>
   filter allowed_file
     (listdir sample_env sample_unmatched_final (output_dir_of sample_env ''job1'')) = []"
proof -
  have m1: "req_method sample_request = POST"
    by code_simp
  have m2: "req_method sample_unmatched_request = POST"
    by code_simp
  obtain params fs1 where pj: "prepare_job sample_env ''job1'' sample_request sample_start =
      (Inr params, fs1)"
    using prepare_job_early(1)[of sample_env "''job1''" sample_request sample_start]
      sample_run m1
    by (cases "prepare_job sample_env ''job1'' sample_request sample_start";
        case_tac a; simp add: index_def render_def)
  have fin: "create_mockups sample_env (design_dir_of sample_env ''job1'')
               (mockup_dir_of sample_env ''job1'') params (output_dir_of sample_env ''job1'') fs1
             = sample_final"
    using sample_run m1 pj by (simp add: index_def Let_def split: if_splits)
  have a: "''A.png'' \<in> set (listdir sample_env sample_final (output_dir_of sample_env ''job1''))"
    by code_simp
  have b: "allowed_file ''A.png''"
    by code_simp
  have e: "resp_error (render (Some (Message msg_no_outputs)) None None 400) =
             Some (Message msg_no_outputs)"
    by (simp add: render_def)
  note t1 = index_no_outputs_error[OF m1 sample_run]
  note t2 = index_no_outputs_error[OF m2 sample_unmatched_run]
  have a': "\<exists>n \<in> set (listdir sample_env
                  (create_mockups sample_env (design_dir_of sample_env ''job1'')
                     (mockup_dir_of sample_env ''job1'') params
                     (output_dir_of sample_env ''job1'') fs1)
                  (output_dir_of sample_env ''job1'')). allowed_file n"
    unfolding fin using a b by blast
  from conjunct2[OF t1, rule_format, OF conjI[OF pj a']]
  have ok: "resp_status (render None (Some [''A.png'', ''b.PNG'']) (Some ''job1'') 200) = 200 \<and>
            resp_error (render None (Some [''A.png'', ''b.PNG'']) (Some ''job1'') 200) = None"
    by blast
  from t2 e
  have "\<forall>n \<in> set (listdir sample_env sample_unmatched_final (output_dir_of sample_env ''job1'')).
          \<not> allowed_file n"
    by blast
  then have none: "filter allowed_file
      (listdir sample_env sample_unmatched_final (output_dir_of sample_env ''job1'')) = []"
    by (simp add: filter_empty_conv)
  show ?thesis
    using m1 m2 sample_run sample_unmatched_run ok none by blast
qed

end
